theory Spec2Isabelle
  imports Main
begin

section \<open>The layout shell of layout.component.ts\<close>

text \<open>
  The development embeds \<^verbatim>\<open>NbLayoutComponent\<close> (the layout shell) of
  \<^verbatim>\<open>src/framework/theme/components/layout/layout.component.ts\<close>. The component is a
  class whose methods mutate its own fields, the document body, the host element, and call
  two injected services. Every method becomes a function from the world before the call to
  the world after it. The single UI thread of the source makes each call atomic.
\<close>

subsection \<open>Values and collaborators\<close>

text \<open>
  An input of the component arrives as a boolean or as a string (the text of an attribute);
  the setters pass it to \<^verbatim>\<open>convertToBoolProperty\<close>.
\<close>

datatype attr_value = BoolVal bool | StrVal string

type_synonym coercion = "attr_value \<Rightarrow> bool"

text \<open>
  The two elements the renderer is called on: \<^verbatim>\<open>document.getElementsByTagName('body')[0]\<close>
  and \<^verbatim>\<open>this.elementRef.nativeElement\<close>.
\<close>

datatype element = Body | Host

datatype renderer_call =
    RemoveClass element string
  | AddClass element string
  | SetStyle element string string

text \<open>
  A field of type \<^verbatim>\<open>Subscription\<close> is \<^verbatim>\<open>undefined\<close> (\<open>None\<close>) until it is
  assigned; the subscription it then holds is open or closed.
\<close>

datatype subscription = Subscribed | Unsubscribed

type_synonym component = string

text \<open>A component reference: the descriptor it was created from and the number of the instance.\<close>

type_synonym component_ref = "component \<times> nat"

text \<open>
  The \<^verbatim>\<open>listener\<close> of a request is a \<^verbatim>\<open>Subject\<close>. \<open>ClientListener\<close> is the subject
  of a request made by some client of the theme service, \<open>CleanupListener\<close> the one of the
  request that \<^verbatim>\<open>ngOnDestroy\<close> causes. The model records the calls made on a listener.
\<close>

datatype listener = ClientListener nat | CleanupListener

datatype payload = InstancePayload component_ref | BoolPayload bool

datatype signal = Next payload | Complete

datatype theme_call = ChangeWindowWidth int | ClearLayoutTopCall

datatype spinner_call = RegisterLoader nat | Load

text \<open>
  What the source can throw: a \<^verbatim>\<open>TypeError\<close> for a method call on \<^verbatim>\<open>undefined\<close>, and
  the two exceptions of the class list of an element, \<^verbatim>\<open>SyntaxError\<close> for an empty token
  and \<^verbatim>\<open>InvalidCharacterError\<close> for a token with white space in it.
\<close>

datatype error = TypeError | SyntaxError | InvalidCharacterError

record theme_event =
  name :: string
  previous :: "string option"

record resize_event =
  target_innerWidth :: int

text \<open>The events that the streams of the theme service carry to their subscribers.\<close>

datatype broadcast =
    ThemeChange theme_event
  | AppendLayoutClass string
  | RemoveLayoutClass string
  | AppendToTop component listener
  | ClearLayoutTop listener

subsection \<open>The world\<close>

text \<open>
  \<^item> \<open>classes\<close>, \<open>styles\<close>: the class list and the inline style of the two elements;
    \<open>renderer_calls\<close>: the calls that \<^verbatim>\<open>Renderer2\<close> carried out, in order.
  \<^item> \<open>centerValue\<close> ... \<open>clearSubscription\<close>: the fields of the component.
    \<open>veryTopRef\<close> is the content of the view container \<^verbatim>\<open>#layoutTopDynamicArea\<close>;
    \<open>afterViewInit_value\<close> and \<open>afterViewInit_observers\<close> are the current value and the
    observers of the \<^verbatim>\<open>BehaviorSubject\<close> \<^verbatim>\<open>afterViewInit$\<close> (\<open>None\<close> is \<^verbatim>\<open>null\<close>).
  \<^item> \<open>theme_calls\<close>, \<open>spinner_calls\<close>: the calls made on the two services, in order.
  \<^item> \<open>promises\<close>: the promises created so far, \<open>True\<close> for a resolved one.
  \<^item> \<open>listener_calls\<close>: the calls made on listeners, in order.
  \<^item> \<open>instances_created\<close>: how many component instances were created (the next number).
\<close>

record world =
  classes :: "element \<Rightarrow> string list"
  styles :: "element \<Rightarrow> (string \<rightharpoonup> string)"
  renderer_calls :: "renderer_call list"
  centerValue :: bool
  windowModeValue :: bool
  withScrollValue :: bool
  veryTopRef :: "component_ref list"
  afterViewInit_value :: "bool option"
  afterViewInit_observers :: "nat list"
  appendClassSubscription :: "subscription option"
  removeClassSubscription :: "subscription option"
  themeSubscription :: "subscription option"
  appendSubscription :: "subscription option"
  clearSubscription :: "subscription option"
  theme_calls :: "theme_call list"
  spinner_calls :: "spinner_call list"
  promises :: "bool list"
  listener_calls :: "(listener \<times> signal) list"
  instances_created :: nat

datatype outcome = Returned world | Threw error world

fun state_of :: "outcome \<Rightarrow> world" where
  "state_of (Returned w) = w"
| "state_of (Threw e w) = w"

text \<open>Sequencing: the statement after a throwing one does not run.\<close>

definition and_then :: "outcome \<Rightarrow> (world \<Rightarrow> outcome) \<Rightarrow> outcome" where
  "and_then r f = (case r of Returned w \<Rightarrow> f w | Threw e w \<Rightarrow> Threw e w)"

subsection \<open>The platform: renderer, promises, the behaviour subject\<close>

text \<open>
  \<^verbatim>\<open>Renderer2.addClass\<close> and \<^verbatim>\<open>removeClass\<close> call \<^verbatim>\<open>classList.add\<close> and
  \<^verbatim>\<open>classList.remove\<close> of the element. The class list is an ordered set of tokens, and
  both methods check the token first: the empty string is a \<^verbatim>\<open>SyntaxError\<close>, a string
  with ASCII white space (tab, line feed, form feed, carriage return, space) in it an
  \<^verbatim>\<open>InvalidCharacterError\<close>, and the class list then stays as it was.
\<close>

definition ascii_whitespace :: "char \<Rightarrow> bool" where
  "ascii_whitespace ch \<longleftrightarrow>
     ch = CHR 0x09 \<or> ch = CHR 0x0A \<or> ch = CHR 0x0C \<or> ch = CHR 0x0D \<or> ch = CHR '' ''"

definition token_error :: "string \<Rightarrow> error option" where
  "token_error c =
     (if c = [] then Some SyntaxError
      else if list_ex ascii_whitespace c then Some InvalidCharacterError
      else None)"

text \<open>A string that the class list accepts.\<close>

definition class_token :: "string \<Rightarrow> bool" where
  "class_token c \<longleftrightarrow> token_error c = None"

text \<open>
  \<open>renderer_calls\<close> records the calls that the renderer carried out; a call that throws
  leaves the world as it was.
\<close>

definition renderer_addClass :: "element \<Rightarrow> string \<Rightarrow> world \<Rightarrow> outcome" where
  "renderer_addClass el c w =
     (case token_error c of
        Some e \<Rightarrow> Threw e w
      | None \<Rightarrow>
          Returned
            (w\<lparr>classes := (classes w)(el := (if c \<in> set (classes w el) then classes w el
                                              else classes w el @ [c])),
              renderer_calls := renderer_calls w @ [AddClass el c]\<rparr>))"

definition renderer_removeClass :: "element \<Rightarrow> string \<Rightarrow> world \<Rightarrow> outcome" where
  "renderer_removeClass el c w =
     (case token_error c of
        Some e \<Rightarrow> Threw e w
      | None \<Rightarrow>
          Returned
            (w\<lparr>classes := (classes w)(el := removeAll c (classes w el)),
              renderer_calls := renderer_calls w @ [RemoveClass el c]\<rparr>))"

definition renderer_setStyle :: "element \<Rightarrow> string \<Rightarrow> string \<Rightarrow> world \<Rightarrow> world" where
  "renderer_setStyle el prop v w =
     w\<lparr>styles := (styles w)(el := (styles w el)(prop \<mapsto> v)),
       renderer_calls := renderer_calls w @ [SetStyle el prop v]\<rparr>"

text \<open>\<^verbatim>\<open>resolve()\<close> of the promise numbered \<open>p\<close>; resolving twice changes nothing.\<close>

definition promise_resolve :: "nat \<Rightarrow> world \<Rightarrow> world" where
  "promise_resolve p w = w\<lparr>promises := (promises w)[p := True]\<rparr>"

text \<open>
  \<^verbatim>\<open>this.afterViewInit$.subscribe((_) => resolve())\<close>. A \<^verbatim>\<open>BehaviorSubject\<close> of rxjs
  holds a current value and hands it to every new observer at once, inside
  \<^verbatim>\<open>subscribe\<close>; the observer here ignores the value and resolves promise \<open>p\<close>.
\<close>

definition afterViewInit_subscribe :: "nat \<Rightarrow> world \<Rightarrow> world" where
  "afterViewInit_subscribe p w =
     promise_resolve p (w\<lparr>afterViewInit_observers := afterViewInit_observers w @ [p]\<rparr>)"

text \<open>\<^verbatim>\<open>this.afterViewInit$.next(v)\<close>: stores the value and calls every observer.\<close>

definition afterViewInit_next :: "bool option \<Rightarrow> world \<Rightarrow> world" where
  "afterViewInit_next v w =
     foldl (\<lambda>w' p. promise_resolve p w') (w\<lparr>afterViewInit_value := v\<rparr>)
       (afterViewInit_observers w)"

subsection \<open>The input setters\<close>

text \<open>
  \<^verbatim>\<open>convertToBoolProperty\<close> is imported from \<^verbatim>\<open>../helpers\<close>; the setters take it as
  the parameter \<open>conv\<close>.
\<close>

definition set_center :: "coercion \<Rightarrow> attr_value \<Rightarrow> world \<Rightarrow> world" where
  "set_center conv val w = w\<lparr>centerValue := conv val\<rparr>"

definition set_withScroll :: "coercion \<Rightarrow> attr_value \<Rightarrow> world \<Rightarrow> world" where
  "set_withScroll conv val w =
     (let w1 = w\<lparr>withScrollValue := conv val\<rparr>
      in if withScrollValue w1 then renderer_setStyle Body ''overflow'' ''hidden'' w1
         else renderer_setStyle Body ''overflow'' ''initial'' w1)"

definition set_windowMode :: "coercion \<Rightarrow> attr_value \<Rightarrow> world \<Rightarrow> world" where
  "set_windowMode conv val w =
     (let w1 = w\<lparr>windowModeValue := conv val\<rparr>
      in set_withScroll conv (BoolVal True) w1)"

text \<open>
  Modelled from the spec: \<^verbatim>\<open>convertToBoolProperty\<close> of \<^verbatim>\<open>../helpers\<close> is not among
  the sources. The spec: it "normalizes attribute-like inputs (string/boolean) to strict
  booleans", where the source "may be true/false/the presence of an attribute/a string
  "true"/"false"". A boolean is kept; of the strings, \<^verbatim>\<open>"true"\<close> and the empty string (the
  value of an attribute that is merely present) give true. Only the concrete instances
  of the theorems use this definition.
\<close>

fun convertToBoolProperty :: coercion where
  "convertToBoolProperty (BoolVal b) = b"
| "convertToBoolProperty (StrVal s) = (s = ''true'' \<or> s = [])"

subsection \<open>The handlers of the subscriptions\<close>

text \<open>
  The handler of \<^verbatim>\<open>onThemeChange()\<close>. \<^verbatim>\<open>if (theme.previous)\<close> tests truthiness:
  \<^verbatim>\<open>null\<close> and the empty string both skip the removal.
\<close>

fun truthy :: "string option \<Rightarrow> bool" where
  "truthy None = False"
| "truthy (Some s) = (s \<noteq> [])"

text \<open>The text that a template literal \<^verbatim>\<open>`${x}`\<close> puts in for \<open>x\<close>.\<close>

fun template_text :: "string option \<Rightarrow> string" where
  "template_text None = ''null''"
| "template_text (Some s) = s"

definition themeChange_handler :: "theme_event \<Rightarrow> world \<Rightarrow> outcome" where
  "themeChange_handler theme w =
     and_then
       (if truthy (previous theme)
        then renderer_removeClass Body (''nb-theme-'' @ template_text (previous theme)) w
        else Returned w)
       (renderer_addClass Body (''nb-theme-'' @ name theme))"

definition appendLayoutClass_handler :: "string \<Rightarrow> world \<Rightarrow> outcome" where
  "appendLayoutClass_handler className w = renderer_addClass Host className w"

definition removeLayoutClass_handler :: "string \<Rightarrow> world \<Rightarrow> outcome" where
  "removeLayoutClass_handler className w = renderer_removeClass Host className w"

text \<open>
  The handler of \<^verbatim>\<open>onAppendToTop()\<close>: \<^verbatim>\<open>createComponent\<close> makes a new instance of
  the component and appends it to the view container.
\<close>

definition appendToTop_handler :: "component \<Rightarrow> listener \<Rightarrow> world \<Rightarrow> world" where
  "appendToTop_handler descriptor l w =
     (let componentRef = (descriptor, instances_created w);
          w1 = w\<lparr>veryTopRef := veryTopRef w @ [componentRef],
                 instances_created := Suc (instances_created w)\<rparr>;
          w2 = w1\<lparr>listener_calls := listener_calls w1 @ [(l, Next (InstancePayload componentRef))]\<rparr>
      in w2\<lparr>listener_calls := listener_calls w2 @ [(l, Complete)]\<rparr>)"

definition clearLayoutTop_handler :: "listener \<Rightarrow> world \<Rightarrow> world" where
  "clearLayoutTop_handler l w =
     (let w1 = w\<lparr>veryTopRef := []\<rparr>
      in w1\<lparr>listener_calls := listener_calls w1 @ [(l, Next (BoolPayload True))]\<rparr>)"

subsection \<open>The theme service\<close>

text \<open>
  Modelled from the spec: \<^verbatim>\<open>NbThemeService\<close> (\<^verbatim>\<open>../../services/theme.service\<close>) is not
  among the sources. The spec: the broadcaster "publishes theme-change, width-change,
  class-append/remove, and overlay-append/clear events as observable streams", the
  subscriptions "fire on the UI thread", and a request arriving before attachment "is not
  serviced (no queueing/buffering ...)". So an event reaches the handler of a subscription
  that is open when the event is emitted, and nothing is kept for a later subscriber.
  Failures are "not caught or translated and would propagate as unhandled platform-level
  failures": what a handler throws leaves the shell, and the world stays as the handler
  left it.
\<close>

fun emit :: "broadcast \<Rightarrow> world \<Rightarrow> world" where
  "emit (ThemeChange theme) w =
     (if themeSubscription w = Some Subscribed then state_of (themeChange_handler theme w)
      else w)"
| "emit (AppendLayoutClass className) w =
     (if appendClassSubscription w = Some Subscribed
      then state_of (appendLayoutClass_handler className w)
      else w)"
| "emit (RemoveLayoutClass className) w =
     (if removeClassSubscription w = Some Subscribed
      then state_of (removeLayoutClass_handler className w)
      else w)"
| "emit (AppendToTop descriptor l) w =
     (if appendSubscription w = Some Subscribed then appendToTop_handler descriptor l w else w)"
| "emit (ClearLayoutTop l) w =
     (if clearSubscription w = Some Subscribed then clearLayoutTop_handler l w else w)"

definition themeService_changeWindowWidth :: "int \<Rightarrow> world \<Rightarrow> world" where
  "themeService_changeWindowWidth width w =
     w\<lparr>theme_calls := theme_calls w @ [ChangeWindowWidth width]\<rparr>"

text \<open>
  Modelled from the spec: \<^verbatim>\<open>NbThemeService.clearLayoutTop\<close> is not among the sources.
  The spec: the call "issues a "clear top" request to the broadcaster (best-effort cleanup
  of anything still injected)". The request goes out on the clear-top stream with a
  listener of the service's own.
\<close>

definition themeService_clearLayoutTop :: "world \<Rightarrow> world" where
  "themeService_clearLayoutTop w =
     emit (ClearLayoutTop CleanupListener) (w\<lparr>theme_calls := theme_calls w @ [ClearLayoutTopCall]\<rparr>)"

subsection \<open>Construction, attachment, destruction, resize\<close>

text \<open>
  The fields of a new component before the constructor's body runs: the property
  initialisers have run, the fields declared without one are \<^verbatim>\<open>undefined\<close>, and the
  view container of the component's own template holds nothing yet.
\<close>

definition field_initialisers :: "world \<Rightarrow> world" where
  "field_initialisers w =
     w\<lparr>centerValue := False, windowModeValue := False, withScrollValue := False,
       veryTopRef := [], afterViewInit_value := None, afterViewInit_observers := [],
       appendClassSubscription := None, removeClassSubscription := None,
       themeSubscription := None, appendSubscription := None, clearSubscription := None\<rparr>"

text \<open>
  The constructor; \<open>innerWidth\<close> is \<^verbatim>\<open>window.innerWidth\<close>. The executor of
  \<^verbatim>\<open>new Promise\<close> runs inside the constructor of the promise, before
  \<^verbatim>\<open>registerLoader\<close> receives the promise.
\<close>

definition constructor :: "int \<Rightarrow> world \<Rightarrow> world" where
  "constructor innerWidth w0 =
     (let w1 = field_initialisers w0;
          w2 = w1\<lparr>themeSubscription := Some Subscribed\<rparr>;
          w3 = w2\<lparr>appendClassSubscription := Some Subscribed\<rparr>;
          w4 = w3\<lparr>removeClassSubscription := Some Subscribed\<rparr>;
          p = length (promises w4);
          w5 = afterViewInit_subscribe p (w4\<lparr>promises := promises w4 @ [False]\<rparr>);
          w6 = w5\<lparr>spinner_calls := spinner_calls w5 @ [RegisterLoader p]\<rparr>;
          w7 = w6\<lparr>spinner_calls := spinner_calls w6 @ [Load]\<rparr>
      in themeService_changeWindowWidth innerWidth w7)"

definition ngAfterViewInit :: "world \<Rightarrow> world" where
  "ngAfterViewInit w =
     (let w1 = w\<lparr>appendSubscription := Some Subscribed\<rparr>;
          w2 = w1\<lparr>clearSubscription := Some Subscribed\<rparr>
      in afterViewInit_next (Some True) w2)"

text \<open>
  \<^verbatim>\<open>field.unsubscribe()\<close>: a \<^verbatim>\<open>TypeError\<close> when the field is still
  \<^verbatim>\<open>undefined\<close>; what was done before the error stays done.
\<close>

definition unsubscribe ::
  "(world \<Rightarrow> subscription option) \<Rightarrow>
   ((subscription option \<Rightarrow> subscription option) \<Rightarrow> world \<Rightarrow> world) \<Rightarrow> world \<Rightarrow> outcome" where
  "unsubscribe field field_update w =
     (case field w of
        None \<Rightarrow> Threw TypeError w
      | Some s \<Rightarrow> Returned (field_update (\<lambda>_. Some Unsubscribed) w))"

definition ngOnDestroy :: "world \<Rightarrow> outcome" where
  "ngOnDestroy w =
     and_then (and_then (and_then (and_then
       (unsubscribe themeSubscription themeSubscription_update (themeService_clearLayoutTop w))
       (unsubscribe appendClassSubscription appendClassSubscription_update))
       (unsubscribe removeClassSubscription removeClassSubscription_update))
       (unsubscribe appendSubscription appendSubscription_update))
       (unsubscribe clearSubscription clearSubscription_update)"

definition onResize :: "resize_event \<Rightarrow> world \<Rightarrow> world" where
  "onResize event w = themeService_changeWindowWidth (target_innerWidth event) w"

subsection \<open>Runs of the shell\<close>

text \<open>
  What can happen to a constructed shell before it is destroyed: an input is set, a stream
  of the theme service emits, the window is resized, the view is attached.
\<close>

datatype action =
    SetCenter attr_value
  | SetWindowMode attr_value
  | SetWithScroll attr_value
  | Emit broadcast
  | Resize resize_event
  | AfterViewInit

fun step :: "coercion \<Rightarrow> action \<Rightarrow> world \<Rightarrow> world" where
  "step conv (SetCenter val) w = set_center conv val w"
| "step conv (SetWindowMode val) w = set_windowMode conv val w"
| "step conv (SetWithScroll val) w = set_withScroll conv val w"
| "step conv (Emit ev) w = emit ev w"
| "step conv (Resize event) w = onResize event w"
| "step conv AfterViewInit w = ngAfterViewInit w"

fun run :: "coercion \<Rightarrow> action list \<Rightarrow> world \<Rightarrow> world" where
  "run conv [] w = w"
| "run conv (a # as) w = run conv as (step conv a w)"

text \<open>A page before any shell is constructed: nothing on the body, no calls made.\<close>

definition page :: world where
  "page =
     \<lparr>classes = (\<lambda>_. []), styles = (\<lambda>_. Map.empty), renderer_calls = [],
      centerValue = False, windowModeValue = False, withScrollValue = False,
      veryTopRef = [], afterViewInit_value = None, afterViewInit_observers = [],
      appendClassSubscription = None, removeClassSubscription = None,
      themeSubscription = None, appendSubscription = None, clearSubscription = None,
      theme_calls = [], spinner_calls = [], promises = [], listener_calls = [],
      instances_created = 0\<rparr>"

subsection \<open>The subscriptions and the life cycle\<close>

text \<open>
  The five \<^verbatim>\<open>Subscription\<close> fields of the component, in the order in which
  \<^verbatim>\<open>ngOnDestroy\<close> releases them.
\<close>

definition subscriptions :: "world \<Rightarrow> subscription option list" where
  "subscriptions w =
     [themeSubscription w, appendClassSubscription w, removeClassSubscription w,
      appendSubscription w, clearSubscription w]"

text \<open>
  A constructed shell that is not destroyed: the three subscriptions of the constructor are
  open, and the two of \<^verbatim>\<open>ngAfterViewInit\<close> are both unassigned or both open.
\<close>

definition constructed :: "world \<Rightarrow> bool" where
  "constructed w \<longleftrightarrow>
     themeSubscription w = Some Subscribed \<and> appendClassSubscription w = Some Subscribed \<and>
     removeClassSubscription w = Some Subscribed \<and>
     (appendSubscription w = None \<and> clearSubscription w = None \<or>
      appendSubscription w = Some Subscribed \<and> clearSubscription w = Some Subscribed)"

section \<open>Properties\<close>

subsection \<open>Auxiliary facts\<close>

lemma run_append: "run conv (xs @ ys) w = run conv ys (run conv xs w)"
  by (induction xs arbitrary: w) simp_all

lemma themeChange_handler_returns:
  assumes "class_token (''nb-theme-'' @ name theme)"
    and "truthy (previous theme) \<longrightarrow> class_token (''nb-theme-'' @ template_text (previous theme))"
  shows "themeChange_handler theme w = Returned (state_of (themeChange_handler theme w))"
  using assms
  by (simp add: themeChange_handler_def and_then_def renderer_addClass_def
      renderer_removeClass_def class_token_def)

lemma themeChange_handler_calls:
  assumes "class_token (''nb-theme-'' @ name theme)"
    and "truthy (previous theme) \<longrightarrow> class_token (''nb-theme-'' @ template_text (previous theme))"
  shows "renderer_calls (state_of (themeChange_handler theme w)) =
     renderer_calls w
       @ (if truthy (previous theme)
          then [RemoveClass Body (''nb-theme-'' @ template_text (previous theme))] else [])
       @ [AddClass Body (''nb-theme-'' @ name theme)]"
  using assms
  by (simp add: themeChange_handler_def and_then_def renderer_addClass_def
      renderer_removeClass_def class_token_def)

lemma themeChange_handler_classes:
  assumes "class_token (''nb-theme-'' @ name theme)"
    and "truthy (previous theme) \<longrightarrow> class_token (''nb-theme-'' @ template_text (previous theme))"
  shows "classes (state_of (themeChange_handler theme w)) Body =
     (let cs = (if truthy (previous theme)
                then removeAll (''nb-theme-'' @ template_text (previous theme)) (classes w Body)
                else classes w Body)
      in if (''nb-theme-'' @ name theme) \<in> set cs then cs else cs @ [''nb-theme-'' @ name theme])"
  using assms
  by (simp add: themeChange_handler_def and_then_def renderer_addClass_def
      renderer_removeClass_def class_token_def Let_def)

text \<open>The two class names of the example are tokens.\<close>

lemma class_token_nb_theme_a: "class_token ''nb-theme-a''"
  by (simp add: class_token_def token_error_def ascii_whitespace_def)

lemma class_token_nb_theme_b: "class_token ''nb-theme-b''"
  by (simp add: class_token_def token_error_def ascii_whitespace_def)

lemma set_withScroll_value: "withScrollValue (set_withScroll conv val w) = conv val"
  by (simp add: set_withScroll_def renderer_setStyle_def Let_def)

lemma set_withScroll_overflow:
  "styles (set_withScroll conv val w) Body ''overflow''
     = Some (if conv val then ''hidden'' else ''initial'')"
  by (simp add: set_withScroll_def renderer_setStyle_def Let_def)

lemma set_withScroll_calls:
  "renderer_calls (set_withScroll conv val w)
     = renderer_calls w @ [SetStyle Body ''overflow'' (if conv val then ''hidden'' else ''initial'')]"
  by (simp add: set_withScroll_def renderer_setStyle_def Let_def)

lemma foldl_onResize_calls:
  "theme_calls (foldl (\<lambda>w' e. onResize e w') w events)
     = theme_calls w @ map (\<lambda>e. ChangeWindowWidth (target_innerWidth e)) events"
  by (induction events arbitrary: w)
     (simp_all add: onResize_def themeService_changeWindowWidth_def)

text \<open>How each operation acts on the five subscription fields.\<close>

lemma resolve_all_subscriptions:
  "subscriptions (foldl (\<lambda>w' p. promise_resolve p w') w ps) = subscriptions w"
  by (induction ps arbitrary: w) (simp_all add: promise_resolve_def subscriptions_def)

lemma subscriptions_constructor:
  "subscriptions (constructor iw w0) = [Some Subscribed, Some Subscribed, Some Subscribed, None, None]"
  by (simp add: subscriptions_def constructor_def field_initialisers_def afterViewInit_subscribe_def
      promise_resolve_def themeService_changeWindowWidth_def Let_def)

lemma subscriptions_ngAfterViewInit:
  "subscriptions (ngAfterViewInit w) =
     [themeSubscription w, appendClassSubscription w, removeClassSubscription w,
      Some Subscribed, Some Subscribed]"
  by (simp add: ngAfterViewInit_def afterViewInit_next_def Let_def resolve_all_subscriptions)
     (simp add: subscriptions_def)

lemma subscriptions_addClass:
  "subscriptions (state_of (renderer_addClass el c w)) = subscriptions w"
  by (simp add: subscriptions_def renderer_addClass_def split: option.splits)

lemma subscriptions_removeClass:
  "subscriptions (state_of (renderer_removeClass el c w)) = subscriptions w"
  by (simp add: subscriptions_def renderer_removeClass_def split: option.splits)

lemma subscriptions_and_then:
  assumes "subscriptions (state_of r) = subscriptions w"
    and "\<And>v. subscriptions (state_of (f v)) = subscriptions v"
  shows "subscriptions (state_of (and_then r f)) = subscriptions w"
  using assms by (cases r) (simp_all add: and_then_def)

lemma subscriptions_themeChange:
  "subscriptions (state_of (themeChange_handler theme w)) = subscriptions w"
  unfolding themeChange_handler_def
  by (rule subscriptions_and_then) (simp_all add: subscriptions_removeClass subscriptions_addClass)

lemma subscriptions_emit: "subscriptions (emit ev w) = subscriptions w"
proof (cases ev)
  case (ThemeChange theme)
  then show ?thesis by (simp add: subscriptions_themeChange)
next
  case (AppendLayoutClass className)
  then show ?thesis by (simp add: appendLayoutClass_handler_def subscriptions_addClass)
next
  case (RemoveLayoutClass className)
  then show ?thesis by (simp add: removeLayoutClass_handler_def subscriptions_removeClass)
next
  case (AppendToTop descriptor l)
  then show ?thesis by (simp add: subscriptions_def appendToTop_handler_def Let_def)
next
  case (ClearLayoutTop l)
  then show ?thesis by (simp add: subscriptions_def clearLayoutTop_handler_def Let_def)
qed

lemma subscriptions_step:
  "a \<noteq> AfterViewInit \<Longrightarrow> subscriptions (step conv a w) = subscriptions w"
proof (cases a)
  case (Emit ev)
  then show ?thesis by (simp add: subscriptions_emit)
qed (simp_all add: subscriptions_def set_center_def set_windowMode_def set_withScroll_def
       renderer_setStyle_def onResize_def themeService_changeWindowWidth_def Let_def)

lemma constructed_iff:
  "constructed w \<longleftrightarrow>
     subscriptions w = [Some Subscribed, Some Subscribed, Some Subscribed, None, None] \<or>
     subscriptions w = [Some Subscribed, Some Subscribed, Some Subscribed,
                        Some Subscribed, Some Subscribed]"
  by (auto simp add: constructed_def subscriptions_def)

text \<open>The life-cycle invariant: established by the constructor, kept by every step.\<close>

lemma constructed_constructor: "constructed (constructor iw w0)"
  by (simp add: constructed_iff subscriptions_constructor)

lemma constructed_step: "constructed w \<Longrightarrow> constructed (step conv a w)"
proof (cases "a = AfterViewInit")
  case True
  assume "constructed w"
  then show ?thesis
    using True
    by (simp add: constructed_iff subscriptions_ngAfterViewInit) (auto simp add: subscriptions_def)
next
  case False
  assume "constructed w"
  then show ?thesis
    using False by (simp add: constructed_iff subscriptions_step)
qed

lemma constructed_run: "constructed w \<Longrightarrow> constructed (run conv acts w)"
  by (induction acts arbitrary: w) (simp_all add: constructed_step)

text \<open>Before attachment the two late subscriptions stay unassigned.\<close>

lemma detached_run:
  "AfterViewInit \<notin> set acts \<Longrightarrow> subscriptions (run conv acts w) = subscriptions w"
proof (induction acts arbitrary: w)
  case Nil
  show ?case by simp
next
  case (Cons a acts)
  then have "a \<noteq> AfterViewInit" and "AfterViewInit \<notin> set acts" by auto
  then show ?case using Cons.IH [of "step conv a w"] by (simp add: subscriptions_step)
qed

text \<open>Once the view is attached the two late subscriptions are open, and stay open.\<close>

lemma attached_step:
  assumes "appendSubscription w = Some Subscribed \<and> clearSubscription w = Some Subscribed"
  shows "appendSubscription (step conv a w) = Some Subscribed
       \<and> clearSubscription (step conv a w) = Some Subscribed"
proof (cases "a = AfterViewInit")
  case True
  have "subscriptions (step conv a w) ! 3 = Some Subscribed"
    and "subscriptions (step conv a w) ! 4 = Some Subscribed"
    using True by (simp_all add: subscriptions_ngAfterViewInit)
  then show ?thesis by (simp add: subscriptions_def)
next
  case False
  then have "subscriptions (step conv a w) = subscriptions w"
    by (rule subscriptions_step)
  then show ?thesis using assms by (simp add: subscriptions_def)
qed

lemma attached_run:
  "appendSubscription w = Some Subscribed \<and> clearSubscription w = Some Subscribed \<Longrightarrow>
   appendSubscription (run conv acts w) = Some Subscribed
     \<and> clearSubscription (run conv acts w) = Some Subscribed"
proof (induction acts arbitrary: w)
  case Nil
  then show ?case by simp
next
  case (Cons a acts)
  from Cons.prems have "appendSubscription (step conv a w) = Some Subscribed
      \<and> clearSubscription (step conv a w) = Some Subscribed"
    by (rule attached_step)
  then show ?case using Cons.IH [of "step conv a w"] by simp
qed

lemma attached_after_AfterViewInit:
  "AfterViewInit \<in> set acts \<Longrightarrow>
   appendSubscription (run conv acts w) = Some Subscribed
     \<and> clearSubscription (run conv acts w) = Some Subscribed"
proof -
  assume "AfterViewInit \<in> set acts"
  then obtain xs ys where acts: "acts = xs @ AfterViewInit # ys"
    by (auto simp add: in_set_conv_decomp)
  let ?w = "ngAfterViewInit (run conv xs w)"
  have "subscriptions ?w ! 3 = Some Subscribed" and "subscriptions ?w ! 4 = Some Subscribed"
    by (simp_all add: subscriptions_ngAfterViewInit)
  then have "appendSubscription ?w = Some Subscribed \<and> clearSubscription ?w = Some Subscribed"
    by (simp add: subscriptions_def)
  then have "appendSubscription (run conv ys ?w) = Some Subscribed
      \<and> clearSubscription (run conv ys ?w) = Some Subscribed"
    by (rule attached_run)
  then show ?thesis by (simp add: acts run_append)
qed

text \<open>Destruction, in the two states a shell can be destroyed in.\<close>

lemma destroy_detached:
  assumes "subscriptions w = [Some Subscribed, Some Subscribed, Some Subscribed, None, None]"
  shows "ngOnDestroy w =
           Threw TypeError (w\<lparr>theme_calls := theme_calls w @ [ClearLayoutTopCall],
              themeSubscription := Some Unsubscribed, appendClassSubscription := Some Unsubscribed,
              removeClassSubscription := Some Unsubscribed\<rparr>)"
  using assms
  by (simp add: subscriptions_def ngOnDestroy_def themeService_clearLayoutTop_def and_then_def
      unsubscribe_def)

lemma destroy_attached:
  assumes "subscriptions w = [Some Subscribed, Some Subscribed, Some Subscribed,
                              Some Subscribed, Some Subscribed]"
  shows "ngOnDestroy w =
           Returned (w\<lparr>theme_calls := theme_calls w @ [ClearLayoutTopCall],
              veryTopRef := [],
              listener_calls := listener_calls w @ [(CleanupListener, Next (BoolPayload True))],
              themeSubscription := Some Unsubscribed, appendClassSubscription := Some Unsubscribed,
              removeClassSubscription := Some Unsubscribed, appendSubscription := Some Unsubscribed,
              clearSubscription := Some Unsubscribed\<rparr>)"
  using assms
  by (simp add: subscriptions_def ngOnDestroy_def themeService_clearLayoutTop_def and_then_def
      unsubscribe_def clearLayoutTop_handler_def Let_def)

lemma destroy_constructed:
  assumes "constructed w"
  shows "theme_calls (state_of (ngOnDestroy w)) = theme_calls w @ [ClearLayoutTopCall]"
    and "Some Subscribed \<notin> set (subscriptions (state_of (ngOnDestroy w)))"
    and "afterViewInit_observers (state_of (ngOnDestroy w)) = afterViewInit_observers w"
  using assms unfolding constructed_iff
  by (auto simp add: destroy_detached destroy_attached) (simp_all add: subscriptions_def)

text \<open>The observer that the constructor registers on \<^verbatim>\<open>afterViewInit$\<close> stays registered.\<close>

lemma observers_resolve_all:
  "afterViewInit_observers (foldl (\<lambda>w' p. promise_resolve p w') w ps) = afterViewInit_observers w"
  by (induction ps arbitrary: w) (simp_all add: promise_resolve_def)

lemma observers_constructor:
  "afterViewInit_observers (constructor iw w0) = [length (promises w0)]"
  by (simp add: constructor_def field_initialisers_def afterViewInit_subscribe_def
      promise_resolve_def themeService_changeWindowWidth_def Let_def)

lemma observers_addClass:
  "afterViewInit_observers (state_of (renderer_addClass el c w)) = afterViewInit_observers w"
  by (simp add: renderer_addClass_def split: option.splits)

lemma observers_removeClass:
  "afterViewInit_observers (state_of (renderer_removeClass el c w)) = afterViewInit_observers w"
  by (simp add: renderer_removeClass_def split: option.splits)

lemma observers_and_then:
  assumes "afterViewInit_observers (state_of r) = afterViewInit_observers w"
    and "\<And>v. afterViewInit_observers (state_of (f v)) = afterViewInit_observers v"
  shows "afterViewInit_observers (state_of (and_then r f)) = afterViewInit_observers w"
  using assms by (cases r) (simp_all add: and_then_def)

lemma observers_themeChange:
  "afterViewInit_observers (state_of (themeChange_handler theme w)) = afterViewInit_observers w"
  unfolding themeChange_handler_def
  by (rule observers_and_then) (simp_all add: observers_removeClass observers_addClass)

lemma observers_emit: "afterViewInit_observers (emit ev w) = afterViewInit_observers w"
proof (cases ev)
  case (ThemeChange theme)
  then show ?thesis by (simp add: observers_themeChange)
next
  case (AppendLayoutClass className)
  then show ?thesis by (simp add: appendLayoutClass_handler_def observers_addClass)
next
  case (RemoveLayoutClass className)
  then show ?thesis by (simp add: removeLayoutClass_handler_def observers_removeClass)
next
  case (AppendToTop descriptor l)
  then show ?thesis by (simp add: appendToTop_handler_def Let_def)
next
  case (ClearLayoutTop l)
  then show ?thesis by (simp add: clearLayoutTop_handler_def Let_def)
qed

lemma observers_step: "afterViewInit_observers (step conv a w) = afterViewInit_observers w"
proof (cases a)
  case (Emit ev)
  then show ?thesis by (simp add: observers_emit)
next
  case AfterViewInit
  then show ?thesis
    by (simp add: ngAfterViewInit_def afterViewInit_next_def observers_resolve_all Let_def)
qed (simp_all add: set_center_def set_windowMode_def set_withScroll_def renderer_setStyle_def
       onResize_def themeService_changeWindowWidth_def Let_def)

lemma observers_run: "afterViewInit_observers (run conv acts w) = afterViewInit_observers w"
  by (induction acts arbitrary: w) (simp_all add: observers_step)

lemma emit_closed:
  "Some Subscribed \<notin> set (subscriptions w) \<Longrightarrow> emit ev w = w"
  by (cases ev) (auto simp add: subscriptions_def)

lemma emits_closed:
  "Some Subscribed \<notin> set (subscriptions w) \<Longrightarrow> run conv (map Emit evs) w = w"
  by (induction evs) (simp_all add: emit_closed)

subsection \<open>Theme change\<close>

text \<open>
  Claim C1, as the code has it. Take a theme event whose class names are tokens of a class
  list: \<^verbatim>\<open>nb-theme-<name>\<close> and, when \<^verbatim>\<open>previous\<close> is truthy (neither \<^verbatim>\<open>null\<close> nor
  empty), \<^verbatim>\<open>nb-theme-<previous>\<close>. The handler of the theme-change subscription returns;
  it first removes the body class \<^verbatim>\<open>nb-theme-<previous>\<close>, when \<^verbatim>\<open>previous\<close> is truthy,
  and then adds the body class \<^verbatim>\<open>nb-theme-<name>\<close>: the renderer carries the calls out in
  this order, the new class is on the body afterwards, and the old one is not when it
  differs from the new one. After the events \<^verbatim>\<open>{name:"a",previous:null}\<close> and
  \<^verbatim>\<open>{name:"b",previous:"a"}\<close> the class list of the body contains \<^verbatim>\<open>nb-theme-b\<close> and
  does not contain \<^verbatim>\<open>nb-theme-a\<close>, whatever it held before.
\<close>

theorem themeChange_swaps_nb_theme_class:
  "(class_token (''nb-theme-'' @ name theme) \<and>
    (truthy (previous theme) \<longrightarrow> class_token (''nb-theme-'' @ template_text (previous theme)))
    \<longrightarrow>
      themeChange_handler theme w = Returned (state_of (themeChange_handler theme w))
    \<and> renderer_calls (state_of (themeChange_handler theme w)) =
        renderer_calls w
          @ (if truthy (previous theme)
             then [RemoveClass Body (''nb-theme-'' @ template_text (previous theme))] else [])
          @ [AddClass Body (''nb-theme-'' @ name theme)]
    \<and> ''nb-theme-'' @ name theme \<in> set (classes (state_of (themeChange_handler theme w)) Body)
    \<and> (truthy (previous theme) \<and> template_text (previous theme) \<noteq> name theme \<longrightarrow>
         ''nb-theme-'' @ template_text (previous theme)
           \<notin> set (classes (state_of (themeChange_handler theme w)) Body)))
   \<and> ''nb-theme-b'' \<in> set (classes (state_of (themeChange_handler \<lparr>name = ''b'', previous = Some ''a''\<rparr>
          (state_of (themeChange_handler \<lparr>name = ''a'', previous = None\<rparr> w)))) Body)
   \<and> ''nb-theme-a'' \<notin> set (classes (state_of (themeChange_handler \<lparr>name = ''b'', previous = Some ''a''\<rparr>
          (state_of (themeChange_handler \<lparr>name = ''a'', previous = None\<rparr> w)))) Body)"
proof -
  have present: "''nb-theme-'' @ name t \<in> set (classes (state_of (themeChange_handler t v)) Body)"
    if "class_token (''nb-theme-'' @ name t)"
      and "truthy (previous t) \<longrightarrow> class_token (''nb-theme-'' @ template_text (previous t))"
    for t v
    using that by (simp add: themeChange_handler_classes Let_def)
  have absent: "''nb-theme-'' @ template_text (previous t)
                  \<notin> set (classes (state_of (themeChange_handler t v)) Body)"
    if "class_token (''nb-theme-'' @ name t)"
      and "truthy (previous t) \<longrightarrow> class_token (''nb-theme-'' @ template_text (previous t))"
      and "truthy (previous t)" and "template_text (previous t) \<noteq> name t"
    for t v
    using that by (simp add: themeChange_handler_classes Let_def)
  have b: "''nb-theme-b'' \<in> set (classes (state_of (themeChange_handler \<lparr>name = ''b'', previous = Some ''a''\<rparr>
          (state_of (themeChange_handler \<lparr>name = ''a'', previous = None\<rparr> w)))) Body)"
    using present [of "\<lparr>name = ''b'', previous = Some ''a''\<rparr>"]
    by (simp add: class_token_nb_theme_a class_token_nb_theme_b)
  have a: "''nb-theme-a'' \<notin> set (classes (state_of (themeChange_handler \<lparr>name = ''b'', previous = Some ''a''\<rparr>
          (state_of (themeChange_handler \<lparr>name = ''a'', previous = None\<rparr> w)))) Body)"
    using absent [of "\<lparr>name = ''b'', previous = Some ''a''\<rparr>"]
    by (simp add: class_token_nb_theme_a class_token_nb_theme_b)
  show ?thesis
    using themeChange_handler_returns [of theme w] themeChange_handler_calls [of theme w]
      present [of theme w] absent [of theme w] a b
    by blast
qed

theorem themeChange_swaps_nb_theme_class_witness:
  "class_token (''nb-theme-'' @ ''b'')
   \<and> truthy (Some ''a'') \<and> class_token (''nb-theme-'' @ template_text (Some ''a''))
   \<and> template_text (Some ''a'') \<noteq> ''b''
   \<and> renderer_calls (state_of (themeChange_handler \<lparr>name = ''b'', previous = Some ''a''\<rparr>
        (state_of (themeChange_handler \<lparr>name = ''a'', previous = None\<rparr> (constructor 1024 page)))))
      = [AddClass Body ''nb-theme-a'', RemoveClass Body ''nb-theme-a'', AddClass Body ''nb-theme-b'']
   \<and> ''nb-theme-b'' \<in> set (classes (state_of (themeChange_handler \<lparr>name = ''b'', previous = Some ''a''\<rparr>
        (state_of (themeChange_handler \<lparr>name = ''a'', previous = None\<rparr> (constructor 1024 page))))) Body)
   \<and> ''nb-theme-a'' \<notin> set (classes (state_of (themeChange_handler \<lparr>name = ''b'', previous = Some ''a''\<rparr>
        (state_of (themeChange_handler \<lparr>name = ''a'', previous = None\<rparr> (constructor 1024 page))))) Body)"
proof -
  have tokens: "class_token (''nb-theme-'' @ ''a'')" "class_token (''nb-theme-'' @ ''b'')"
    by (simp_all add: class_token_def token_error_def ascii_whitespace_def)
  have calls: "renderer_calls (state_of (themeChange_handler \<lparr>name = ''a'', previous = None\<rparr>
                 (constructor 1024 page))) = [AddClass Body ''nb-theme-a'']"
    using tokens
    by (simp add: themeChange_handler_calls)
       (simp add: constructor_def field_initialisers_def afterViewInit_subscribe_def
          promise_resolve_def themeService_changeWindowWidth_def page_def Let_def)
  show ?thesis
    using themeChange_swaps_nb_theme_class
            [of "\<lparr>name = ''b'', previous = Some ''a''\<rparr>"
                "state_of (themeChange_handler \<lparr>name = ''a'', previous = None\<rparr>
                   (constructor 1024 page))"]
          calls tokens
    by simp
qed

text \<open>
  Claim C1, as the spec words it, fails: on a page whose body has no class, after the two
  events delivered to a constructed shell, the class \<^verbatim>\<open>theme-b\<close> is not on the body
  (the body holds \<^verbatim>\<open>nb-theme-b\<close>).
\<close>

theorem theme_b_class_counterexample:
  "\<not> (''theme-b'' \<in> set (classes (run convertToBoolProperty
          [Emit (ThemeChange \<lparr>name = ''a'', previous = None\<rparr>),
           Emit (ThemeChange \<lparr>name = ''b'', previous = Some ''a''\<rparr>)]
          (constructor 1024 page)) Body)
      \<and> ''theme-a'' \<notin> set (classes (run convertToBoolProperty
          [Emit (ThemeChange \<lparr>name = ''a'', previous = None\<rparr>),
           Emit (ThemeChange \<lparr>name = ''b'', previous = Some ''a''\<rparr>)]
          (constructor 1024 page)) Body))"
  by (simp add: constructor_def page_def field_initialisers_def afterViewInit_subscribe_def
      promise_resolve_def themeService_changeWindowWidth_def themeChange_handler_def
      and_then_def renderer_addClass_def renderer_removeClass_def token_error_def
      ascii_whitespace_def Let_def)

subsection \<open>The loader\<close>

text \<open>
  Claim C2 says that the loader registered with the spinner service is resolved only after
  the view is attached. The code resolves it inside the constructor: on an empty page, when
  the constructor has returned, promise 0 is the loader that was registered, it is already
  resolved, \<^verbatim>\<open>afterViewInit$\<close> still holds \<^verbatim>\<open>null\<close>, and the subscriptions that
  \<^verbatim>\<open>ngAfterViewInit\<close> opens are still unassigned.
\<close>

theorem loader_resolved_in_constructor:
  "spinner_calls (constructor 1024 page) = [RegisterLoader 0, Load]
   \<and> promises (constructor 1024 page) = [True]
   \<and> afterViewInit_value (constructor 1024 page) = None
   \<and> appendSubscription (constructor 1024 page) = None
   \<and> clearSubscription (constructor 1024 page) = None"
  by (simp add: constructor_def page_def field_initialisers_def afterViewInit_subscribe_def
      promise_resolve_def themeService_changeWindowWidth_def Let_def)

subsection \<open>The inputs\<close>

text \<open>
  Claim C3. Whatever \<open>withScrollValue\<close> was, setting \<^verbatim>\<open>windowMode\<close> to a value that
  coerces to true leaves \<open>withScrollValue\<close> true, and setting it to a value that coerces to
  false does not leave \<open>withScrollValue\<close> false. The coercion is any function that takes the
  boolean \<^verbatim>\<open>true\<close> to true.
\<close>

theorem windowMode_true_forces_withScroll:
  "conv (BoolVal True) \<Longrightarrow>
     (conv val \<longrightarrow> windowModeValue (set_windowMode conv val w)
                  \<and> withScrollValue (set_windowMode conv val w))
   \<and> (\<not> conv val \<longrightarrow> \<not> windowModeValue (set_windowMode conv val w)
                  \<and> withScrollValue (set_windowMode conv val w) \<noteq> False)"
  by (simp add: set_windowMode_def set_withScroll_def renderer_setStyle_def Let_def)

theorem windowMode_true_forces_withScroll_witness:
  "convertToBoolProperty (BoolVal True)
   \<and> withScrollValue (set_windowMode convertToBoolProperty (BoolVal True)
        (page\<lparr>withScrollValue := False\<rparr>))
   \<and> \<not> convertToBoolProperty (StrVal ''false'')
   \<and> withScrollValue (set_windowMode convertToBoolProperty (StrVal ''false'')
        (page\<lparr>withScrollValue := False\<rparr>)) \<noteq> False"
proof -
  have h: "convertToBoolProperty (BoolVal True)" by simp
  show ?thesis
    using h
      windowMode_true_forces_withScroll
        [of convertToBoolProperty "BoolVal True" "page\<lparr>withScrollValue := False\<rparr>", OF h]
      windowMode_true_forces_withScroll
        [of convertToBoolProperty "StrVal ''false''" "page\<lparr>withScrollValue := False\<rparr>", OF h]
    by simp
qed

text \<open>
  Claim C6. Every call of the \<^verbatim>\<open>withScroll\<close> setter stores the coerced value and calls
  the renderer once, setting the \<^verbatim>\<open>overflow\<close> style of the body to \<^verbatim>\<open>hidden\<close> when
  the value coerces to true and to \<^verbatim>\<open>initial\<close> (the default of the property) when it
  coerces to false, whatever the state before.
\<close>

theorem withScroll_sets_body_overflow:
  "withScrollValue (set_withScroll conv val w) = conv val
   \<and> styles (set_withScroll conv val w) Body ''overflow''
       = Some (if conv val then ''hidden'' else ''initial'')
   \<and> renderer_calls (set_withScroll conv val w)
       = renderer_calls w
           @ [SetStyle Body ''overflow'' (if conv val then ''hidden'' else ''initial'')]"
  by (simp only: set_withScroll_value set_withScroll_overflow set_withScroll_calls simp_thms)

theorem withScroll_sets_body_overflow_witness:
  "styles (set_withScroll convertToBoolProperty (BoolVal True) page) Body ''overflow''
     = Some ''hidden''
   \<and> styles (set_withScroll convertToBoolProperty (BoolVal False)
        (set_withScroll convertToBoolProperty (BoolVal True) page)) Body ''overflow''
     = Some ''initial''"
  using withScroll_sets_body_overflow [of convertToBoolProperty "BoolVal True" page]
        withScroll_sets_body_overflow [of convertToBoolProperty "BoolVal False"
          "set_withScroll convertToBoolProperty (BoolVal True) page"]
  by simp

text \<open>
  Claim C10. Setting \<^verbatim>\<open>windowMode\<close> to any value at all, also one that coerces to false,
  sets \<open>withScrollValue\<close> to true and the \<^verbatim>\<open>overflow\<close> style of the body to
  \<^verbatim>\<open>hidden\<close>. The coercion is any function that takes the boolean \<^verbatim>\<open>true\<close> to true.
\<close>

theorem windowMode_any_value_hides_body_overflow:
  "conv (BoolVal True) \<Longrightarrow>
     withScrollValue (set_windowMode conv val w)
   \<and> styles (set_windowMode conv val w) Body ''overflow'' = Some ''hidden''"
  by (simp add: set_windowMode_def set_withScroll_value set_withScroll_overflow Let_def)

theorem windowMode_any_value_hides_body_overflow_witness:
  "convertToBoolProperty (BoolVal True)
   \<and> withScrollValue (set_windowMode convertToBoolProperty (BoolVal False) page)
   \<and> styles (set_windowMode convertToBoolProperty (BoolVal False) page) Body ''overflow''
       = Some ''hidden''"
proof -
  have h: "convertToBoolProperty (BoolVal True)" by simp
  show ?thesis
    using h windowMode_any_value_hides_body_overflow
              [of convertToBoolProperty "BoolVal False" page, OF h]
    by simp
qed

subsection \<open>Requests for the top of the layout\<close>

text \<open>
  Claim C4. In every run of a constructed shell in which the view has been attached, an
  "append to top" request that reaches the shell puts one new instance of the requested
  component at the end of the insertion point, calls \<^verbatim>\<open>next\<close> on the listener of the
  request once, with that instance, and then calls \<^verbatim>\<open>complete\<close> on it.
\<close>

theorem appendToTop_served_after_attachment:
  "AfterViewInit \<in> set acts \<Longrightarrow>
     veryTopRef (emit (AppendToTop descriptor l) (run conv acts (constructor iw w0)))
       = veryTopRef (run conv acts (constructor iw w0))
           @ [(descriptor, instances_created (run conv acts (constructor iw w0)))]
   \<and> listener_calls (emit (AppendToTop descriptor l) (run conv acts (constructor iw w0)))
       = listener_calls (run conv acts (constructor iw w0))
           @ [(l, Next (InstancePayload
                          (descriptor, instances_created (run conv acts (constructor iw w0))))),
              (l, Complete)]"
proof -
  assume "AfterViewInit \<in> set acts"
  then have "appendSubscription (run conv acts (constructor iw w0)) = Some Subscribed"
    by (simp add: attached_after_AfterViewInit)
  then show ?thesis
    by (simp add: appendToTop_handler_def Let_def)
qed

theorem appendToTop_served_after_attachment_witness:
  "AfterViewInit \<in> set [AfterViewInit]
   \<and> veryTopRef (emit (AppendToTop ''spinner'' (ClientListener 0))
        (run convertToBoolProperty [AfterViewInit] (constructor 1024 page)))
      = [(''spinner'', 0)]
   \<and> listener_calls (emit (AppendToTop ''spinner'' (ClientListener 0))
        (run convertToBoolProperty [AfterViewInit] (constructor 1024 page)))
      = [(ClientListener 0, Next (InstancePayload (''spinner'', 0))),
         (ClientListener 0, Complete)]"
proof -
  have h: "AfterViewInit \<in> set [AfterViewInit]" by simp
  have before: "veryTopRef (run convertToBoolProperty [AfterViewInit] (constructor 1024 page)) = []"
    "instances_created (run convertToBoolProperty [AfterViewInit] (constructor 1024 page)) = 0"
    "listener_calls (run convertToBoolProperty [AfterViewInit] (constructor 1024 page)) = []"
    by (simp_all add: ngAfterViewInit_def afterViewInit_next_def constructor_def
        field_initialisers_def afterViewInit_subscribe_def promise_resolve_def
        themeService_changeWindowWidth_def page_def Let_def)
  show ?thesis
    using h before
      appendToTop_served_after_attachment
        [of "[AfterViewInit]" "''spinner''" "ClientListener 0" convertToBoolProperty 1024 page, OF h]
    by simp
qed

text \<open>
  Claim C5. In every run of a constructed shell in which the view has been attached, a
  "clear top" request that reaches the shell leaves the insertion point with no instance
  and calls \<^verbatim>\<open>next(true)\<close> on the listener of the request.
\<close>

theorem clearTop_served_after_attachment:
  "AfterViewInit \<in> set acts \<Longrightarrow>
     veryTopRef (emit (ClearLayoutTop l) (run conv acts (constructor iw w0))) = []
   \<and> listener_calls (emit (ClearLayoutTop l) (run conv acts (constructor iw w0)))
       = listener_calls (run conv acts (constructor iw w0)) @ [(l, Next (BoolPayload True))]"
proof -
  assume "AfterViewInit \<in> set acts"
  then have "clearSubscription (run conv acts (constructor iw w0)) = Some Subscribed"
    by (simp add: attached_after_AfterViewInit)
  then show ?thesis
    by (simp add: clearLayoutTop_handler_def Let_def)
qed

theorem clearTop_served_after_attachment_witness:
  "AfterViewInit \<in> set [AfterViewInit, Emit (AppendToTop ''spinner'' (ClientListener 0))]
   \<and> veryTopRef (run convertToBoolProperty
        [AfterViewInit, Emit (AppendToTop ''spinner'' (ClientListener 0))]
        (constructor 1024 page)) = [(''spinner'', 0)]
   \<and> veryTopRef (emit (ClearLayoutTop (ClientListener 1)) (run convertToBoolProperty
        [AfterViewInit, Emit (AppendToTop ''spinner'' (ClientListener 0))]
        (constructor 1024 page))) = []
   \<and> listener_calls (emit (ClearLayoutTop (ClientListener 1)) (run convertToBoolProperty
        [AfterViewInit, Emit (AppendToTop ''spinner'' (ClientListener 0))]
        (constructor 1024 page)))
      = [(ClientListener 0, Next (InstancePayload (''spinner'', 0))),
         (ClientListener 0, Complete),
         (ClientListener 1, Next (BoolPayload True))]"
proof -
  have h: "AfterViewInit \<in> set [AfterViewInit, Emit (AppendToTop ''spinner'' (ClientListener 0))]"
    by simp
  have before: "veryTopRef (run convertToBoolProperty
        [AfterViewInit, Emit (AppendToTop ''spinner'' (ClientListener 0))]
        (constructor 1024 page)) = [(''spinner'', 0)]"
    "listener_calls (run convertToBoolProperty
        [AfterViewInit, Emit (AppendToTop ''spinner'' (ClientListener 0))]
        (constructor 1024 page))
      = [(ClientListener 0, Next (InstancePayload (''spinner'', 0))),
         (ClientListener 0, Complete)]"
    by (simp_all add: ngAfterViewInit_def afterViewInit_next_def constructor_def
        field_initialisers_def afterViewInit_subscribe_def promise_resolve_def
        themeService_changeWindowWidth_def appendToTop_handler_def page_def Let_def)
  show ?thesis
    using h before
      clearTop_served_after_attachment
        [of "[AfterViewInit, Emit (AppendToTop ''spinner'' (ClientListener 0))]"
            "ClientListener 1" convertToBoolProperty 1024 page, OF h]
    by simp
qed

text \<open>
  Claim C7. An "append to top" or "clear top" request emitted before the view is attached
  changes nothing: no instance, no clearing, no call on its listener. It is not kept either:
  whatever happens later, attachment included, the shell ends in the state it would have
  reached had the request never been emitted.
\<close>

theorem request_before_attachment_is_dropped:
  "AfterViewInit \<notin> set before \<Longrightarrow>
   req = AppendToTop descriptor l \<or> req = ClearLayoutTop l \<Longrightarrow>
     emit req (run conv before (constructor iw w0)) = run conv before (constructor iw w0)
   \<and> run conv (before @ Emit req # later) (constructor iw w0)
       = run conv (before @ later) (constructor iw w0)"
proof -
  assume detached: "AfterViewInit \<notin> set before"
    and req: "req = AppendToTop descriptor l \<or> req = ClearLayoutTop l"
  let ?w = "run conv before (constructor iw w0)"
  have "subscriptions ?w = [Some Subscribed, Some Subscribed, Some Subscribed, None, None]"
    using detached by (simp add: detached_run subscriptions_constructor)
  then have "appendSubscription ?w = None" and "clearSubscription ?w = None"
    by (simp_all add: subscriptions_def)
  then have "emit req ?w = ?w"
    using req by auto
  then show ?thesis by (simp add: run_append)
qed

theorem request_before_attachment_is_dropped_witness:
  "AfterViewInit \<notin> set [SetWithScroll (BoolVal True)]
   \<and> veryTopRef (run convertToBoolProperty
        ([SetWithScroll (BoolVal True)] @ Emit (AppendToTop ''spinner'' (ClientListener 0))
           # [AfterViewInit]) (constructor 1024 page)) = []
   \<and> listener_calls (run convertToBoolProperty
        ([SetWithScroll (BoolVal True)] @ Emit (AppendToTop ''spinner'' (ClientListener 0))
           # [AfterViewInit]) (constructor 1024 page)) = []"
proof -
  have h: "AfterViewInit \<notin> set [SetWithScroll (BoolVal True)]" by simp
  have r: "AppendToTop ''spinner'' (ClientListener 0) = AppendToTop ''spinner'' (ClientListener 0)
           \<or> AppendToTop ''spinner'' (ClientListener 0) = ClearLayoutTop (ClientListener 0)"
    by simp
  have without: "veryTopRef (run convertToBoolProperty
        ([SetWithScroll (BoolVal True)] @ [AfterViewInit]) (constructor 1024 page)) = []"
    "listener_calls (run convertToBoolProperty
        ([SetWithScroll (BoolVal True)] @ [AfterViewInit]) (constructor 1024 page)) = []"
    by (simp_all add: ngAfterViewInit_def afterViewInit_next_def constructor_def
        field_initialisers_def afterViewInit_subscribe_def promise_resolve_def
        themeService_changeWindowWidth_def set_withScroll_def renderer_setStyle_def
        page_def Let_def)
  show ?thesis
    using h without
      request_before_attachment_is_dropped
        [of "[SetWithScroll (BoolVal True)]" "AppendToTop ''spinner'' (ClientListener 0)"
            "''spinner''" "ClientListener 0" convertToBoolProperty 1024 page "[AfterViewInit]",
         OF h r]
    by simp
qed

subsection \<open>Destruction\<close>

text \<open>
  Claim C8, as the code has it. Destroying a constructed shell, after any run, calls
  \<^verbatim>\<open>clearLayoutTop\<close> on the theme service and leaves none of the five subscriptions
  to the streams of the theme service open; the subscription that the constructor opened on
  the shell's own \<^verbatim>\<open>afterViewInit$\<close> is not released, its observer is still registered.
  After that, events emitted on the theme-change, append-class, remove-class, append-to-top
  and clear-top streams, however many, change nothing: not the body, not the shell, nothing
  else.
\<close>

theorem destroyed_shell_is_inert:
  "theme_calls (state_of (ngOnDestroy (run conv acts (constructor iw w0))))
     = theme_calls (run conv acts (constructor iw w0)) @ [ClearLayoutTopCall]
   \<and> Some Subscribed
       \<notin> set (subscriptions (state_of (ngOnDestroy (run conv acts (constructor iw w0)))))
   \<and> run conv (map Emit evs) (state_of (ngOnDestroy (run conv acts (constructor iw w0))))
       = state_of (ngOnDestroy (run conv acts (constructor iw w0)))
   \<and> afterViewInit_observers (state_of (ngOnDestroy (run conv acts (constructor iw w0))))
       = [length (promises w0)]"
proof -
  have "constructed (run conv acts (constructor iw w0))"
    by (simp add: constructed_run constructed_constructor)
  then show ?thesis
    by (simp add: destroy_constructed emits_closed observers_run observers_constructor)
qed

theorem destroyed_shell_is_inert_witness:
  "subscriptions (state_of (ngOnDestroy (run convertToBoolProperty [AfterViewInit]
      (constructor 1024 page))))
    = [Some Unsubscribed, Some Unsubscribed, Some Unsubscribed, Some Unsubscribed,
       Some Unsubscribed]
   \<and> classes (run convertToBoolProperty
        (map Emit [ThemeChange \<lparr>name = ''cosmic'', previous = Some ''default''\<rparr>,
                   AppendLayoutClass ''wide'', RemoveLayoutClass ''wide'',
                   AppendToTop ''spinner'' (ClientListener 0),
                   ClearLayoutTop (ClientListener 1)])
        (state_of (ngOnDestroy (run convertToBoolProperty [AfterViewInit]
           (constructor 1024 page))))) Body = []
   \<and> listener_calls (run convertToBoolProperty
        (map Emit [ThemeChange \<lparr>name = ''cosmic'', previous = Some ''default''\<rparr>,
                   AppendLayoutClass ''wide'', RemoveLayoutClass ''wide'',
                   AppendToTop ''spinner'' (ClientListener 0),
                   ClearLayoutTop (ClientListener 1)])
        (state_of (ngOnDestroy (run convertToBoolProperty [AfterViewInit]
           (constructor 1024 page)))))
      = [(CleanupListener, Next (BoolPayload True))]"
proof -
  have attached: "subscriptions (run convertToBoolProperty [AfterViewInit] (constructor 1024 page))
      = [Some Subscribed, Some Subscribed, Some Subscribed, Some Subscribed, Some Subscribed]"
    by (simp add: subscriptions_ngAfterViewInit)
       (simp add: constructor_def field_initialisers_def afterViewInit_subscribe_def
          promise_resolve_def themeService_changeWindowWidth_def Let_def)
  have plain: "classes (run convertToBoolProperty [AfterViewInit] (constructor 1024 page)) Body = []"
    "listener_calls (run convertToBoolProperty [AfterViewInit] (constructor 1024 page)) = []"
    by (simp_all add: ngAfterViewInit_def afterViewInit_next_def constructor_def
        field_initialisers_def afterViewInit_subscribe_def promise_resolve_def
        themeService_changeWindowWidth_def page_def Let_def)
  note inert =
    destroyed_shell_is_inert
      [of convertToBoolProperty "[AfterViewInit]" 1024 page
          "[ThemeChange \<lparr>name = ''cosmic'', previous = Some ''default''\<rparr>,
            AppendLayoutClass ''wide'', RemoveLayoutClass ''wide'',
            AppendToTop ''spinner'' (ClientListener 0),
            ClearLayoutTop (ClientListener 1)]",
       THEN conjunct2, THEN conjunct2, THEN conjunct1]
  show ?thesis
    unfolding inert
    unfolding destroy_attached [OF attached] state_of.simps
    using plain by (simp add: subscriptions_def)
qed

text \<open>
  Claim C8, as the spec words it, fails: the shell does not unsubscribe every open
  subscription. After a shell on an empty page is constructed, attached and destroyed, the
  observer that the constructor subscribed to \<^verbatim>\<open>afterViewInit$\<close> is still registered,
  so not every subscription is closed.
\<close>

theorem afterViewInit_subscription_left_open_counterexample:
  "\<not> (Some Subscribed
        \<notin> set (subscriptions (state_of (ngOnDestroy
              (run convertToBoolProperty [AfterViewInit] (constructor 1024 page)))))
      \<and> afterViewInit_observers (state_of (ngOnDestroy
              (run convertToBoolProperty [AfterViewInit] (constructor 1024 page)))) = [])"
proof -
  have attached: "subscriptions (run convertToBoolProperty [AfterViewInit] (constructor 1024 page))
      = [Some Subscribed, Some Subscribed, Some Subscribed, Some Subscribed, Some Subscribed]"
    by (simp add: subscriptions_ngAfterViewInit)
       (simp add: constructor_def field_initialisers_def afterViewInit_subscribe_def
          promise_resolve_def themeService_changeWindowWidth_def Let_def)
  have "afterViewInit_observers (state_of (ngOnDestroy
          (run convertToBoolProperty [AfterViewInit] (constructor 1024 page)))) = [0]"
    unfolding destroy_attached [OF attached] state_of.simps
    by (simp add: ngAfterViewInit_def afterViewInit_next_def constructor_def
        field_initialisers_def afterViewInit_subscribe_def promise_resolve_def
        themeService_changeWindowWidth_def page_def Let_def)
  then show ?thesis by simp
qed

subsection \<open>Resize\<close>

text \<open>
  Claim C9. For every sequence of resize events, the handler makes one
  \<^verbatim>\<open>changeWindowWidth\<close> call per event, in the order of the events, each with the
  \<^verbatim>\<open>innerWidth\<close> of its event; the number of calls made equals the number of events.
\<close>

theorem resize_forwards_every_width:
  "theme_calls (foldl (\<lambda>w' e. onResize e w') w events)
     = theme_calls w @ map (\<lambda>e. ChangeWindowWidth (target_innerWidth e)) events
   \<and> length (theme_calls (foldl (\<lambda>w' e. onResize e w') w events))
     = length (theme_calls w) + length events"
  by (simp add: foldl_onResize_calls)

theorem resize_forwards_every_width_witness:
  "theme_calls (foldl (\<lambda>w' e. onResize e w') (constructor 1024 page)
      [\<lparr>target_innerWidth = 800\<rparr>, \<lparr>target_innerWidth = 801\<rparr>, \<lparr>target_innerWidth = 801\<rparr>])
    = [ChangeWindowWidth 1024, ChangeWindowWidth 800, ChangeWindowWidth 801,
       ChangeWindowWidth 801]"
proof -
  have initial: "theme_calls (constructor 1024 page) = [ChangeWindowWidth 1024]"
    by (simp add: constructor_def field_initialisers_def afterViewInit_subscribe_def
        promise_resolve_def themeService_changeWindowWidth_def page_def Let_def)
  show ?thesis
    using initial
      resize_forwards_every_width
        [of "constructor 1024 page"
            "[\<lparr>target_innerWidth = 800\<rparr>, \<lparr>target_innerWidth = 801\<rparr>, \<lparr>target_innerWidth = 801\<rparr>]"]
    by simp
qed

end
